theory Spec2Isabelle
  imports Main
begin

section \<open>Account verification (packages/authorization, providers/account-verification.ts)\<close>

text \<open>
  A shallow embedding of the class \<open>AccountVerification\<close>: its instance fields, the four
  challenge handlers and the loop of \<open>run\<close>. Everything the class only calls (the cookie-aware
  fetch, the callback service, cheerio, the URL classes of the platform, the helpers
  \<open>parseFormField\<close> and \<open>getFullURL\<close>, the constant \<open>CALLBACK_BLANK\<close>) is a field of the
  record \<open>env\<close>, so every statement below holds for any behaviour of these collaborators.
  A request, a callback-service call and \<open>getFullURL\<close> either return or throw; a collaborator
  that never answers is outside the model. The fixed options that \<open>fetch\<close> adds to every
  request (agent, timeout, user agent, no compression) are left out of the request record.
\<close>

subsection \<open>The string methods of the platform that the class uses\<close>

text \<open>\<open>s.startsWith(t)\<close>\<close>

fun startsWith :: "string \<Rightarrow> string \<Rightarrow> bool" where
  "startsWith s [] = True"
| "startsWith [] (c # cs) = False"
| "startsWith (x # xs) (c # cs) = (x = c \<and> startsWith xs cs)"

text \<open>\<open>s.includes(t)\<close>: \<open>t\<close> occurs in \<open>s\<close> at some position.\<close>

fun includes_str :: "string \<Rightarrow> string \<Rightarrow> bool" where
  "includes_str [] t = (t = [])"
| "includes_str (x # xs) t = (startsWith (x # xs) t \<or> includes_str xs t)"

text \<open>\<open>s.substring(n)\<close> for a non-negative \<open>n\<close>.\<close>

definition substring :: "string \<Rightarrow> nat \<Rightarrow> string" where
  "substring s n = drop n s"

text \<open>
  \<open>s.trim()\<close> removes white space and line terminators at both ends; among the characters
  of a \<open>string\<close> these are tab, line feed, vertical tab, form feed, carriage return, space
  and the no-break space.
\<close>

definition is_space :: "char \<Rightarrow> bool" where
  "is_space c = ((of_char c :: nat) \<in> {9, 10, 11, 12, 13, 32, 160})"

definition trim :: "string \<Rightarrow> string" where
  "trim s = rev (dropWhile is_space (rev (dropWhile is_space s)))"

text \<open>\<open>s.replace(/^(\+|00)/, '')\<close>: one leading \<open>+\<close>, or else one leading \<open>00\<close>, is removed.\<close>

definition replace_leading_plus_or_00 :: "string \<Rightarrow> string" where
  "replace_leading_plus_or_00 s =
     (if startsWith s ''+'' then drop 1 s
      else if startsWith s ''00'' then drop 2 s
      else s)"

text \<open>\<open>s.replace('+', '')\<close>: a string pattern replaces the first occurrence only.\<close>

definition replace_first_plus :: "string \<Rightarrow> string" where
  "replace_first_plus s = remove1 (CHR ''+'') s"

text \<open>
  \<open>s.slice(start, end)\<close>: a negative index counts from the end of the string, both indices
  are clamped to \<open>0 .. s.length\<close>, and the result is empty when the end is not after the
  start.
\<close>

definition slice :: "string \<Rightarrow> int \<Rightarrow> int \<Rightarrow> string" where
  "slice s start fin =
     (let len = int (length s);
          from = (if start < 0 then max (len + start) 0 else min start len);
          to = (if fin < 0 then max (len + fin) 0 else min fin len)
      in take (nat (to - from)) (drop (nat from) s))"

subsection \<open>Constants\<close>

definition ACTION_AUTH_CODE :: string where
  "ACTION_AUTH_CODE = ''act=authcheck''"

definition ACTION_SECURITY_CODE :: string where
  "ACTION_SECURITY_CODE = ''act=security''"

definition ACTION_VALIDATE :: string where
  "ACTION_VALIDATE = ''act=validate''"

definition ACTION_CAPTCHA :: string where
  "ACTION_CAPTCHA = ''act=captcha''"

definition TWO_FACTOR_ATTEMPTS :: nat where
  "TWO_FACTOR_ATTEMPTS = 3"

subsection \<open>Data\<close>

datatype AuthErrorCode =
  INVALID_PHONE_NUMBER | AUTHORIZATION_FAILED | FAILED_PASSED_CAPTCHA | FAILED_PASSED_TWO_FACTOR

text \<open>
  What can be thrown: an \<open>AuthorizationError\<close> with its message, code and optional
  \<open>pageHtml\<close>, or whatever a collaborator throws (a failed or timed-out request, a rejected
  callback), which the class passes on untouched.
\<close>

datatype error =
  AuthorizationError string AuthErrorCode "string option"
| ExternalError string

datatype http_method = GET | POST

type_synonym form_fields = "(string \<times> string) list"

record request =
  req_method :: http_method
  req_url :: string
  req_body :: "form_fields option"

record response =
  url :: string
  body_text :: string

datatype CaptchaType = ACCOUNT_VERIFICATION

record captcha_payload =
  captcha_type :: CaptchaType
  sid :: "string option"
  src :: "string option"

text \<open>The option \<open>phone?: string | number\<close>; \<open>'n\<close> is the number type of the platform.\<close>

datatype 'n phone_option = PhoneString string | PhoneNumber 'n

text \<open>
  A pending validation (\<open>ICallbackServiceValidate\<close>) is identified by the position of the
  callback-service request that created it.
\<close>

type_synonym validate_handle = nat

text \<open>The calls that leave the class, in the order in which they are made.\<close>

datatype event =
  Fetch request
| LoadMarkup string
| ParseFormField
| ProcessingTwoFactor "validate_handle option"
| ProcessingCaptcha captcha_payload "validate_handle option"
| Reject validate_handle error

text \<open>The value \<open>run\<close> returns.\<close>

record 'n grant =
  user :: "'n option"
  token :: "string option"

text \<open>
  The collaborators. \<open>fetchCookie k rq\<close> is the outcome of the \<open>k\<close>-th request of the session,
  \<open>processingTwoFactor k\<close> and \<open>processingCaptcha k p\<close> the answer to the \<open>k\<close>-th request made
  to the callback service. \<open>'d\<close> is the type of a loaded document.
\<close>

record ('n, 'd) env =
  CALLBACK_BLANK :: string
  opt_login :: "string option"
  opt_phone :: "'n phone_option option"
  fetchCookie :: "nat \<Rightarrow> request \<Rightarrow> error + response"
  processingTwoFactor :: "nat \<Rightarrow> error + string"
  processingCaptcha :: "nat \<Rightarrow> captcha_payload \<Rightarrow> error + string"
  cheerioLoad :: "string \<Rightarrow> 'd"
  html :: "'d \<Rightarrow> string"
  parseFormField :: "'d \<Rightarrow> string option \<times> form_fields"
  field_prefix_texts :: "'d \<Rightarrow> string list"
  captcha_img_src :: "'d \<Rightarrow> string option"
  activation_href :: "'d \<Rightarrow> string option"
  getFullURL :: "string option \<Rightarrow> response \<Rightarrow> error + string"
  searchParams_set :: "string \<Rightarrow> string \<Rightarrow> string \<Rightarrow> string"
  URL_hash :: "string \<Rightarrow> string"
  URLSearchParams :: "string \<Rightarrow> (string \<times> string) list"
  Number :: "string \<Rightarrow> 'n"
  String :: "'n \<Rightarrow> string"

text \<open>
  The instance fields of the class, together with the number of requests sent, the number
  of callback-service requests made and the calls made so far.
\<close>

record state =
  captchaValidate :: "validate_handle option"
  captchaAttempts :: nat
  twoFactorValidate :: "validate_handle option"
  twoFactorAttempts :: nat
  fetched :: nat
  asked :: nat
  trace :: "event list"

text \<open>The constructor.\<close>

definition constructor :: state where
  "constructor =
     \<lparr>captchaValidate = None, captchaAttempts = 0,
      twoFactorValidate = None, twoFactorAttempts = 0,
      fetched = 0, asked = 0, trace = []\<rparr>"

definition emit :: "event \<Rightarrow> state \<Rightarrow> state" where
  "emit ev st = st\<lparr>trace := trace st @ [ev]\<rparr>"

text \<open>Reading and writing a property of the \<open>fields\<close> object, \<open>params.has\<close> and \<open>params.get\<close>.\<close>

definition get_field :: "form_fields \<Rightarrow> string \<Rightarrow> string option" where
  "get_field flds k = map_of flds k"

fun set_field :: "string \<Rightarrow> string \<Rightarrow> form_fields \<Rightarrow> form_fields" where
  "set_field k v [] = [(k, v)]"
| "set_field k v (p # ps) = (if fst p = k then (k, v) # ps else p # set_field k v ps)"

definition has_param :: "(string \<times> string) list \<Rightarrow> string \<Rightarrow> bool" where
  "has_param params k = (map_of params k \<noteq> None)"

definition get_param :: "(string \<times> string) list \<Rightarrow> string \<Rightarrow> string option" where
  "get_param params k = map_of params k"

text \<open>\<open>$sel.first().text()\<close> and \<open>$sel.last().text()\<close>: the empty string for an empty selection.\<close>

definition first_text :: "string list \<Rightarrow> string" where
  "first_text ts = (case ts of [] \<Rightarrow> [] | t # _ \<Rightarrow> t)"

definition last_text :: "string list \<Rightarrow> string" where
  "last_text ts = (case ts of [] \<Rightarrow> [] | _ # _ \<Rightarrow> last ts)"

subsection \<open>The method \<open>fetch\<close> and the callback service\<close>

definition fetch :: "('n, 'd) env \<Rightarrow> state \<Rightarrow> request \<Rightarrow> (error + response) \<times> state" where
  "fetch e st rq =
     (fetchCookie e (fetched st) rq,
      st\<lparr>fetched := Suc (fetched st), trace := trace st @ [Fetch rq]\<rparr>)"

definition callTwoFactor ::
  "('n, 'd) env \<Rightarrow> state \<Rightarrow> (error + string \<times> validate_handle) \<times> state" where
  "callTwoFactor e st =
     (case processingTwoFactor e (asked st) of
        Inl err \<Rightarrow>
          (Inl err, st\<lparr>asked := Suc (asked st), trace := trace st @ [ProcessingTwoFactor None]\<rparr>)
      | Inr code \<Rightarrow>
          (Inr (code, asked st),
           st\<lparr>asked := Suc (asked st),
              trace := trace st @ [ProcessingTwoFactor (Some (asked st))]\<rparr>))"

definition callCaptcha ::
  "('n, 'd) env \<Rightarrow> state \<Rightarrow> captcha_payload \<Rightarrow> (error + string \<times> validate_handle) \<times> state" where
  "callCaptcha e st p =
     (case processingCaptcha e (asked st) p of
        Inl err \<Rightarrow>
          (Inl err, st\<lparr>asked := Suc (asked st), trace := trace st @ [ProcessingCaptcha p None]\<rparr>)
      | Inr key \<Rightarrow>
          (Inr (key, asked st),
           st\<lparr>asked := Suc (asked st),
              trace := trace st @ [ProcessingCaptcha p (Some (asked st))]\<rparr>))"

subsection \<open>The challenge handlers\<close>

definition processTwoFactorForm ::
  "('n, 'd) env \<Rightarrow> state \<Rightarrow> response \<Rightarrow> 'd \<Rightarrow> (error + response) \<times> state" where
  "processTwoFactorForm e st response doc =
     (let st1 =
        (case twoFactorValidate st of
           Some v \<Rightarrow>
             (emit (Reject v (AuthorizationError ''Incorrect two-factor code''
                                FAILED_PASSED_TWO_FACTOR (Some (html e doc)))) st)
               \<lparr>twoFactorAttempts := twoFactorAttempts st + 1\<rparr>
         | None \<Rightarrow> st)
      in
        if twoFactorAttempts st1 \<ge> TWO_FACTOR_ATTEMPTS then
          (Inl (AuthorizationError ''Failed passed two-factor authentication''
                  FAILED_PASSED_TWO_FACTOR None), st1)
        else
          let (action, flds) = parseFormField e doc;
              st2 = emit ParseFormField st1
          in
            case callTwoFactor e st2 of
              (Inl err, st3) \<Rightarrow> (Inl err, st3)
            | (Inr (code, validate), st3) \<Rightarrow>
                let flds' = set_field ''code'' code flds in
                  (case getFullURL e action response of
                     Inl err \<Rightarrow> (Inl err, emit (Reject validate err) st3)
                   | Inr u \<Rightarrow>
                       (case fetch e st3 \<lparr>req_method = POST, req_url = u,
                                          req_body = Some flds'\<rparr> of
                          (Inr newResponse, st4) \<Rightarrow> (Inr newResponse, st4)
                        | (Inl err, st4) \<Rightarrow> (Inl err, emit (Reject validate err) st4))))"

text \<open>
  The parts of \<open>processSecurityForm\<close>: the choice of the number (\<open>phone\<close>, else a \<open>login\<close>
  without \<open>@\<close>, else nothing), its normal form, and the two lengths read from the
  \<open>.field_prefix\<close> elements.
\<close>

definition phone_candidate :: "('n, 'd) env \<Rightarrow> 'n phone_option option" where
  "phone_candidate e =
     (case opt_phone e of
        Some phone \<Rightarrow> Some phone
      | None \<Rightarrow>
          (case opt_login e of
             Some login \<Rightarrow> (if \<not> includes_str login ''@'' then Some (PhoneString login) else None)
           | None \<Rightarrow> None))"

definition normalize_number :: "('n, 'd) env \<Rightarrow> 'n phone_option \<Rightarrow> string" where
  "normalize_number e candidate =
     (case candidate of
        PhoneString s \<Rightarrow> replace_leading_plus_or_00 (trim s)
      | PhoneNumber n \<Rightarrow> String e n)"

definition prefix_length :: "('n, 'd) env \<Rightarrow> 'd \<Rightarrow> nat" where
  "prefix_length e doc = length (replace_first_plus (trim (first_text (field_prefix_texts e doc))))"

definition postfix_length :: "('n, 'd) env \<Rightarrow> 'd \<Rightarrow> nat" where
  "postfix_length e doc = length (trim (last_text (field_prefix_texts e doc)))"

definition processSecurityForm ::
  "('n, 'd) env \<Rightarrow> state \<Rightarrow> response \<Rightarrow> 'd \<Rightarrow> (error + response) \<times> state" where
  "processSecurityForm e st response doc =
     (case phone_candidate e of
        None \<Rightarrow>
          (Inl (AuthorizationError ''Missing phone number in the phone or login field''
                  INVALID_PHONE_NUMBER None), st)
      | Some candidate \<Rightarrow>
          (let number = normalize_number e candidate;
               prefix = prefix_length e doc;
               postfix = postfix_length e doc;
               (action, flds) = parseFormField e doc;
               st1 = emit ParseFormField st;
               flds' = set_field ''code''
                         (slice number (int prefix) (int (length number) - int postfix)) flds
           in
             (case getFullURL e action response of
                Inl err \<Rightarrow> (Inl err, st1)
              | Inr u \<Rightarrow>
                  (case fetch e st1 \<lparr>req_method = POST, req_url = u, req_body = Some flds'\<rparr> of
                     (Inl err, st2) \<Rightarrow> (Inl err, st2)
                   | (Inr rewResponse, st2) \<Rightarrow>
                       (if includes_str (url rewResponse) ACTION_SECURITY_CODE then
                          (Inl (AuthorizationError ''Invalid phone number''
                                  INVALID_PHONE_NUMBER None), st2)
                        else (Inr rewResponse, st2))))))"

definition processValidateForm ::
  "('n, 'd) env \<Rightarrow> state \<Rightarrow> response \<Rightarrow> 'd \<Rightarrow> (error + response) \<times> state" where
  "processValidateForm e st response doc =
     (let href = activation_href e doc in
        case getFullURL e href response of
          Inl err \<Rightarrow> (Inl err, st)
        | Inr u \<Rightarrow> fetch e st \<lparr>req_method = GET, req_url = u, req_body = None\<rparr>)"

definition processCaptchaForm ::
  "('n, 'd) env \<Rightarrow> state \<Rightarrow> response \<Rightarrow> 'd \<Rightarrow> (error + response) \<times> state" where
  "processCaptchaForm e st response doc =
     (let st1 =
        (case captchaValidate st of
           Some v \<Rightarrow>
             (emit (Reject v (AuthorizationError ''Incorrect captcha code''
                                FAILED_PASSED_CAPTCHA None)) st)
               \<lparr>captchaValidate := None, captchaAttempts := captchaAttempts st + 1\<rparr>
         | None \<Rightarrow> st);
          (action, flds) = parseFormField e doc;
          st2 = emit ParseFormField st1;
          src = captcha_img_src e doc
      in
        case callCaptcha e st2 \<lparr>captcha_type = ACCOUNT_VERIFICATION,
                                sid = get_field flds ''captcha_sid'', src = src\<rparr> of
          (Inl err, st3) \<Rightarrow> (Inl err, st3)
        | (Inr (key, validate), st3) \<Rightarrow>
            let st4 = st3\<lparr>captchaValidate := Some validate\<rparr>;
                flds' = set_field ''captcha_key'' key flds
            in
              (case getFullURL e action response of
                 Inl err \<Rightarrow> (Inl err, st4)
               | Inr u \<Rightarrow>
                   fetch e st4 \<lparr>req_method = POST,
                                req_url = searchParams_set e ''utf8'' ''1'' u,
                                req_body = Some flds'\<rparr>))"

subsection \<open>The method \<open>run\<close>\<close>

text \<open>
  The branch of \<open>run\<close> for a URL that contains \<open>CALLBACK_BLANK\<close>: the parameters of the
  fragment (\<open>hash\<close> without its leading \<open>#\<close>), then the error or the grant.
\<close>

definition fragment_params :: "('n, 'd) env \<Rightarrow> string \<Rightarrow> (string \<times> string) list" where
  "fragment_params e u =
     (let hash = URL_hash e u;
          hash = (if startsWith hash ''#'' then substring hash 1 else hash)
      in URLSearchParams e hash)"

definition grant_of_url :: "('n, 'd) env \<Rightarrow> string \<Rightarrow> error + 'n grant" where
  "grant_of_url e u =
     (let params = fragment_params e u in
        if has_param params ''error'' then
          Inl (AuthorizationError
                 (''Failed passed grant access: '' @
                    (case get_param params ''error_description'' of
                       None \<Rightarrow> ''Unknown error''
                     | Some d \<Rightarrow> if d = [] then ''Unknown error'' else d))
                 AUTHORIZATION_FAILED None)
        else
          (let user = get_param params ''user_id'' in
             Inr \<lparr>user = (case user of Some v \<Rightarrow> Some (Number e v) | None \<Rightarrow> None),
                  token = get_param params ''access_token''\<rparr>))"

text \<open>
  A loop iteration either ends \<open>run\<close> (with a thrown error or a returned grant) or leaves the
  next response for the following iteration.
\<close>

datatype 'n config =
  Finished "error + 'n grant" state
| Running state response

definition continue :: "(error + response) \<times> state \<Rightarrow> 'n config" where
  "continue r = (case r of (Inl err, st) \<Rightarrow> Finished (Inl err) st
                         | (Inr response, st) \<Rightarrow> Running st response)"

text \<open>The body of the \<open>while\<close> loop of \<open>run\<close>.\<close>

definition step :: "('n, 'd) env \<Rightarrow> state \<Rightarrow> response \<Rightarrow> 'n config" where
  "step e st response =
     (let u = url response in
        if includes_str u (CALLBACK_BLANK e) then Finished (grant_of_url e u) st
        else
          let doc = cheerioLoad e (body_text response);
              st0 = emit (LoadMarkup (body_text response)) st
          in
            if includes_str u ACTION_AUTH_CODE then
              continue (processTwoFactorForm e st0 response doc)
            else if includes_str u ACTION_SECURITY_CODE then
              continue (processSecurityForm e st0 response doc)
            else if includes_str u ACTION_VALIDATE then
              continue (processValidateForm e st0 response doc)
            else if includes_str u ACTION_CAPTCHA then
              continue (processCaptchaForm e st0 response doc)
            else
              Finished (Inl (AuthorizationError ''Account verification failed''
                               AUTHORIZATION_FAILED None)) st0)"

text \<open>
  The loop \<open>while (isProcessed)\<close> has no bound: it is a partial function, and \<open>None\<close> is the
  run that never leaves the loop.
\<close>

partial_function (option) loop ::
  "('n, 'd) env \<Rightarrow> state \<Rightarrow> response \<Rightarrow> ((error + 'n grant) \<times> state) option" where
  "loop e st response =
     (case step e st response of
        Finished res st' \<Rightarrow> Some (res, st')
      | Running st' response' \<Rightarrow> loop e st' response')"

declare loop.simps [code]

definition run :: "('n, 'd) env \<Rightarrow> string \<Rightarrow> ((error + 'n grant) \<times> state) option" where
  "run e redirectUri =
     (case fetch e constructor \<lparr>req_method = GET, req_url = redirectUri, req_body = None\<rparr> of
        (Inl err, st) \<Rightarrow> Some (Inl err, st)
      | (Inr response, st) \<Rightarrow> loop e st response)"

text \<open>The configuration after at most \<open>n\<close> iterations of the loop.\<close>

fun iterate :: "('n, 'd) env \<Rightarrow> nat \<Rightarrow> 'n config \<Rightarrow> 'n config" where
  "iterate e 0 c = c"
| "iterate e (Suc n) c =
     (case c of Finished res st \<Rightarrow> c | Running st response \<Rightarrow> iterate e n (step e st response))"

definition run_config :: "('n, 'd) env \<Rightarrow> string \<Rightarrow> nat \<Rightarrow> 'n config" where
  "run_config e redirectUri n =
     (case fetch e constructor \<lparr>req_method = GET, req_url = redirectUri, req_body = None\<rparr> of
        (Inl err, st) \<Rightarrow> Finished (Inl err) st
      | (Inr response, st) \<Rightarrow> iterate e n (Running st response))"

fun config_state :: "'n config \<Rightarrow> state" where
  "config_state (Finished res st) = st"
| "config_state (Running st response) = st"

subsection \<open>Properties of traces\<close>

text \<open>
  A monitor for the captcha validations. It reads the calls in order and keeps the captcha
  handles already rejected and the captcha handle that is open, if any. It stops (\<open>None\<close>)
  when a captcha request returns a handle while another captcha handle is open, when the
  open handle is rejected with anything but \<open>FAILED_PASSED_CAPTCHA\<close> without page markup, or
  when a captcha handle is rejected a second time.
\<close>

definition incorrect_captcha :: error where
  "incorrect_captcha = AuthorizationError ''Incorrect captcha code'' FAILED_PASSED_CAPTCHA None"

fun captcha_monitor ::
  "(validate_handle list \<times> validate_handle option) option \<Rightarrow> event \<Rightarrow>
   (validate_handle list \<times> validate_handle option) option" where
  "captcha_monitor None ev = None"
| "captcha_monitor (Some (closed, pending)) (ProcessingCaptcha p (Some h)) =
     (if pending = None then Some (closed, Some h) else None)"
| "captcha_monitor (Some (closed, pending)) (Reject h err) =
     (if pending = Some h then
        (if err = incorrect_captcha then Some (h # closed, None) else None)
      else if h \<in> set closed then None
      else Some (closed, pending))"
| "captcha_monitor (Some (closed, pending)) ev = Some (closed, pending)"

definition single_captcha_pending :: "event list \<Rightarrow> bool" where
  "single_captcha_pending tr = (foldl captcha_monitor (Some ([], None)) tr \<noteq> None)"

text \<open>The handles given out in a trace and those rejected in it.\<close>

fun issued :: "event list \<Rightarrow> validate_handle list" where
  "issued [] = []"
| "issued (ProcessingTwoFactor (Some h) # evs) = h # issued evs"
| "issued (ProcessingCaptcha p (Some h) # evs) = h # issued evs"
| "issued (ev # evs) = issued evs"

fun rejected :: "event list \<Rightarrow> validate_handle list" where
  "rejected [] = []"
| "rejected (Reject h err # evs) = h # rejected evs"
| "rejected (ev # evs) = rejected evs"

definition outstanding :: "event list \<Rightarrow> validate_handle list" where
  "outstanding tr = filter (\<lambda>h. h \<notin> set (rejected tr)) (issued tr)"

text \<open>The challenge kinds of the specification.\<close>

datatype ChallengeKind = TwoFactor | SecurityCode | PhoneValidation | Captcha | Terminal | Unknown

text \<open>
  The pending validations of a kind after a trace: the handles that the requests of that
  kind returned and that have not been rejected since (the class resolves no handle).
\<close>

fun issued_of :: "ChallengeKind \<Rightarrow> event list \<Rightarrow> validate_handle list" where
  "issued_of kind [] = []"
| "issued_of kind (ProcessingTwoFactor (Some h) # evs) =
     (if kind = TwoFactor then h # issued_of kind evs else issued_of kind evs)"
| "issued_of kind (ProcessingCaptcha p (Some h) # evs) =
     (if kind = Captcha then h # issued_of kind evs else issued_of kind evs)"
| "issued_of kind (ev # evs) = issued_of kind evs"

definition pending_of :: "ChallengeKind \<Rightarrow> event list \<Rightarrow> validate_handle list" where
  "pending_of kind tr = filter (\<lambda>h. h \<notin> set (rejected tr)) (issued_of kind tr)"

text \<open>
  What holds of the state between two calls of a handler: no two-factor handle is kept and
  no two-factor attempt is counted, the monitor has accepted the trace and its open handle
  is the field \<open>captchaValidate\<close>, and every handle given out so far is below the number of
  callback-service requests.
\<close>

definition run_inv :: "state \<Rightarrow> bool" where
  "run_inv st =
     (twoFactorValidate st = None \<and> twoFactorAttempts st = 0 \<and>
      (\<exists>closed. foldl captcha_monitor (Some ([], None)) (trace st) =
                  Some (closed, captchaValidate st) \<and>
                (\<forall>h \<in> set closed. h < asked st)) \<and>
      (\<forall>h. captchaValidate st = Some h \<longrightarrow> h < asked st) \<and>
      distinct (issued (trace st)) \<and>
      (\<forall>h \<in> set (issued (trace st)). h < asked st))"

text \<open>
  The kind of a URL: that of the first marker the URL contains, the markers taken in the
  order terminal, \<open>act=authcheck\<close>, \<open>act=security\<close>, \<open>act=validate\<close>, \<open>act=captcha\<close>.
\<close>

definition classify :: "('n, 'd) env \<Rightarrow> string \<Rightarrow> ChallengeKind" where
  "classify e u =
     (case find (\<lambda>(marker, kind). includes_str u marker)
             [(CALLBACK_BLANK e, Terminal), (ACTION_AUTH_CODE, TwoFactor),
              (ACTION_SECURITY_CODE, SecurityCode), (ACTION_VALIDATE, PhoneValidation),
              (ACTION_CAPTCHA, Captcha)] of
        None \<Rightarrow> Unknown
      | Some (marker, kind) \<Rightarrow> kind)"

text \<open>A URL on which the loop of \<open>run\<close> calls one of the four handlers.\<close>

definition is_challenge :: "('n, 'd) env \<Rightarrow> string \<Rightarrow> bool" where
  "is_challenge e u =
     (\<not> includes_str u (CALLBACK_BLANK e) \<and>
      (includes_str u ACTION_AUTH_CODE \<or> includes_str u ACTION_SECURITY_CODE \<or>
       includes_str u ACTION_VALIDATE \<or> includes_str u ACTION_CAPTCHA))"

text \<open>The requests sent in a trace, in order.\<close>

fun requests :: "event list \<Rightarrow> request list" where
  "requests [] = []"
| "requests (Fetch rq # evs) = rq # requests evs"
| "requests (ev # evs) = requests evs"

text \<open>
  What holds of a configuration of \<open>run\<close>: the trace holds every request sent, every request
  but the last was answered with a challenge page, and while the loop runs its current
  response is the answer to the last request.
\<close>

definition attempt_inv :: "('n, 'd) env \<Rightarrow> 'n config \<Rightarrow> bool" where
  "attempt_inv e c =
     (let st = config_state c; rqs = requests (trace st) in
        length rqs = fetched st \<and> 0 < fetched st \<and>
        (\<forall>j. Suc j < fetched st \<longrightarrow>
           (\<exists>r. fetchCookie e j (rqs ! j) = Inr r \<and> is_challenge e (url r))) \<and>
        (case c of
           Running st' r \<Rightarrow> fetchCookie e (fetched st - 1) (rqs ! (fetched st - 1)) = Inr r
         | Finished res st' \<Rightarrow> True))"

text \<open>What a handler does to the requests: none and an error, or one more request.\<close>

definition sends ::
  "('n, 'd) env \<Rightarrow> state \<Rightarrow> (error + response) \<times> state \<Rightarrow> bool" where
  "sends e st p =
     ((requests (trace (snd p)) = requests (trace st) \<and> fetched (snd p) = fetched st \<and>
        (\<exists>err. fst p = Inl err))
      \<or> (\<exists>rq. requests (trace (snd p)) = requests (trace st) @ [rq] \<and>
               fetched (snd p) = Suc (fetched st) \<and>
               (\<forall>r'. fst p = Inr r' \<longrightarrow> fetchCookie e (fetched st) rq = Inr r')))"

subsection \<open>The security code as the specification words it\<close>

text \<open>
  The sentences of the specification, taken literally: the number is a plain digit string,
  and the prefix length is that of the first label's text with \<open>+\<close> removed, then trimmed.
\<close>

definition is_digit :: "char \<Rightarrow> bool" where
  "is_digit c = (48 \<le> (of_char c :: nat) \<and> (of_char c :: nat) \<le> 57)"

definition security_code_spec :: "('n, 'd) env \<Rightarrow> 'n phone_option \<Rightarrow> 'd \<Rightarrow> string" where
  "security_code_spec e candidate doc =
     (let number = filter is_digit
                     (case candidate of
                        PhoneString s \<Rightarrow> replace_leading_plus_or_00 (trim s)
                      | PhoneNumber n \<Rightarrow> String e n);
          prefix = length (trim (replace_first_plus (first_text (field_prefix_texts e doc))));
          suffix = length (trim (last_text (field_prefix_texts e doc)))
      in slice number (int prefix) (int (length number) - int suffix))"

subsection \<open>The terminal redirect as the specification words it\<close>

text \<open>
  The sentence of the specification, taken literally: with an \<open>error\<close> parameter the message
  is built from \<open>error_description\<close>, and from \<open>Unknown error\<close> when that parameter is absent;
  otherwise the grant.
\<close>

definition grant_of_url_spec :: "('n, 'd) env \<Rightarrow> string \<Rightarrow> error + 'n grant" where
  "grant_of_url_spec e u =
     (let params = fragment_params e u in
        if has_param params ''error'' then
          Inl (AuthorizationError
                 (''Failed passed grant access: '' @
                    (case get_param params ''error_description'' of
                       None \<Rightarrow> ''Unknown error''
                     | Some d \<Rightarrow> d))
                 AUTHORIZATION_FAILED None)
        else
          Inr \<lparr>user = map_option (Number e) (get_param params ''user_id''),
               token = get_param params ''access_token''\<rparr>)"

subsection \<open>Collaborators for concrete runs\<close>

text \<open>
  Simple stand-ins for the collaborators, used to run the class on concrete inputs: a page
  is given directly by what the handlers read from it, the fragment of a URL starts at its
  first \<open>#\<close>, parameters are split at \<open>&\<close> and \<open>=\<close> (no escapes), numbers are decimal.
\<close>

record page =
  page_html :: string
  page_action :: "string option"
  page_fields :: form_fields
  page_prefixes :: "string list"
  page_captcha_src :: "string option"
  page_href :: "string option"

definition demo_page :: "string \<Rightarrow> page" where
  "demo_page markup =
     \<lparr>page_html = markup, page_action = Some ''/login?act=submit'',
      page_fields = [(''captcha_sid'', ''777''), (''code'', [])],
      page_prefixes = [''+71'', ''90''],
      page_captcha_src = Some ''/captcha.php?sid=777'',
      page_href = Some ''/activation''\<rparr>"

definition demo_hash :: "string \<Rightarrow> string" where
  "demo_hash u = dropWhile (\<lambda>c. c \<noteq> CHR ''#'') u"

fun split_amp :: "string \<Rightarrow> string \<Rightarrow> string list" where
  "split_amp acc [] = [rev acc]"
| "split_amp acc (c # cs) =
     (if c = CHR ''&'' then rev acc # split_amp [] cs else split_amp (c # acc) cs)"

definition demo_params :: "string \<Rightarrow> (string \<times> string) list" where
  "demo_params s =
     map (\<lambda>kv. (takeWhile (\<lambda>c. c \<noteq> CHR ''='') kv, drop 1 (dropWhile (\<lambda>c. c \<noteq> CHR ''='') kv)))
       (filter (\<lambda>kv. kv \<noteq> []) (split_amp [] s))"

definition demo_number :: "string \<Rightarrow> nat" where
  "demo_number s = foldl (\<lambda>n c. 10 * n + (of_char c - 48)) 0 s"

fun demo_string :: "nat \<Rightarrow> string" where
  "demo_string n =
     (if n < 10 then [char_of (48 + n)]
      else demo_string (n div 10) @ [char_of (48 + n mod 10)])"

definition demo_getFullURL :: "string option \<Rightarrow> response \<Rightarrow> error + string" where
  "demo_getFullURL action response =
     (case action of
        None \<Rightarrow> Inl (ExternalError ''Invalid URL'')
      | Some a \<Rightarrow> Inr (''https://m.vk.com'' @ a))"

definition demo_env :: "(nat \<Rightarrow> request \<Rightarrow> error + response) \<Rightarrow> (nat, page) env" where
  "demo_env http =
     \<lparr>CALLBACK_BLANK = ''https://oauth.vk.com/blank.html'',
      opt_login = None,
      opt_phone = Some (PhoneString ''+71234567890''),
      fetchCookie = http,
      processingTwoFactor = (\<lambda>k. Inr ''000000''),
      processingCaptcha = (\<lambda>k p. Inr ''zx4k''),
      cheerioLoad = demo_page,
      html = page_html,
      parseFormField = (\<lambda>p. (page_action p, page_fields p)),
      field_prefix_texts = page_prefixes,
      captcha_img_src = page_captcha_src,
      activation_href = page_href,
      getFullURL = demo_getFullURL,
      searchParams_set = (\<lambda>k v u. u @ ''&'' @ k @ ''='' @ v),
      URL_hash = demo_hash,
      URLSearchParams = demo_params,
      Number = demo_number,
      String = demo_string\<rparr>"

text \<open>A session that answers the \<open>k\<close>-th request with the \<open>k\<close>-th entry of a list, then times out.\<close>

definition scripted :: "(error + response) list \<Rightarrow> nat \<Rightarrow> request \<Rightarrow> error + response" where
  "scripted rs k rq = (if k < length rs then rs ! k else Inl (ExternalError ''network timeout''))"

definition page_at :: "string \<Rightarrow> error + response" where
  "page_at u = Inr \<lparr>url = u, body_text = ''<html></html>''\<rparr>"

text \<open>A portal that answers every request with the same page.\<close>

definition always :: "string \<Rightarrow> nat \<Rightarrow> request \<Rightarrow> error + response" where
  "always u k rq = page_at u"

text \<open>
  A portal that answers the first request with the two-factor page and checks the code of
  every later one: the terminal redirect for the right code, the two-factor page again for
  any other request.
\<close>

definition code_checking :: "string \<Rightarrow> nat \<Rightarrow> request \<Rightarrow> error + response" where
  "code_checking code k rq =
     (if 0 < k \<and> (case req_body rq of None \<Rightarrow> False
                                      | Some flds \<Rightarrow> get_field flds ''code'' = Some code)
      then page_at ''https://oauth.vk.com/blank.html#access_token=tok123&user_id=42''
      else page_at ''https://m.vk.com/login?act=authcheck'')"

section \<open>Verification\<close>

lemmas demo_defs = demo_env_def scripted_def page_at_def always_def demo_page_def demo_hash_def
  demo_params_def demo_number_def demo_getFullURL_def code_checking_def

lemmas marker_defs = ACTION_AUTH_CODE_def ACTION_SECURITY_CODE_def ACTION_VALIDATE_def
  ACTION_CAPTCHA_def

lemmas handler_defs = step_def continue_def processTwoFactorForm_def processSecurityForm_def
  processValidateForm_def processCaptchaForm_def fetch_def emit_def callTwoFactor_def
  callCaptcha_def grant_of_url_def fragment_params_def has_param_def get_param_def get_field_def
  phone_candidate_def normalize_number_def prefix_length_def postfix_length_def
  first_text_def last_text_def trim_def is_space_def replace_first_plus_def
  replace_leading_plus_or_00_def slice_def substring_def TWO_FACTOR_ATTEMPTS_def

subsection \<open>The loop and its bounded unfoldings\<close>

lemma iterate_Finished [simp]: "iterate e n (Finished res st) = Finished res st"
  by (cases n) simp_all

lemma iterate_loop:
  "iterate e n (Running st r) = Finished res st' \<Longrightarrow> loop e st r = Some (res, st')"
proof (induction n arbitrary: st r)
  case 0
  then show ?case by simp
next
  case (Suc n)
  show ?case
  proof (cases "step e st r")
    case (Finished res0 st0)
    with Suc.prems show ?thesis by (subst loop.simps) simp
  next
    case (Running st1 r1)
    with Suc.prems have "iterate e n (Running st1 r1) = Finished res st'" by simp
    then have "loop e st1 r1 = Some (res, st')" by (rule Suc.IH)
    with Running show ?thesis by (subst loop.simps) simp
  qed
qed

lemma loop_iterate:
  assumes "loop e st r = Some x"
  shows "\<exists>n. iterate e n (Running st r) = Finished (fst x) (snd x)"
proof -
  let ?Q = "\<lambda>e st r x. \<exists>n. iterate e n (Running st r) = Finished (fst x) (snd x)"
  have body: "?Q e st r x"
    if IH: "\<And>e st r x. f e st r = Some x \<Longrightarrow> ?Q e st r x"
      and eq: "(case step e st r of Finished res st' \<Rightarrow> Some (res, st')
                | Running st' r' \<Rightarrow> f e st' r') = Some x"
    for f :: "('a, 'b) env \<Rightarrow> state \<Rightarrow> response \<Rightarrow> ((error + 'a grant) \<times> state) option"
      and e st r x
  proof (cases "step e st r")
    case (Finished res0 st0)
    with eq have "x = (res0, st0)" by simp
    with Finished have "iterate e (Suc 0) (Running st r) = Finished (fst x) (snd x)" by simp
    then show ?thesis ..
  next
    case (Running st1 r1)
    with eq have "f e st1 r1 = Some x" by simp
    then obtain n where "iterate e n (Running st1 r1) = Finished (fst x) (snd x)"
      using IH by blast
    with Running have "iterate e (Suc n) (Running st r) = Finished (fst x) (snd x)" by simp
    then show ?thesis ..
  qed
  show ?thesis
    by (rule loop.raw_induct [where P = ?Q, OF body assms])
qed

text \<open>\<open>run\<close> returns exactly what some bounded unfolding of its loop ends with.\<close>

lemma run_eq_Some_iff:
  "run e redirectUri = Some (res, st) \<longleftrightarrow> (\<exists>n. run_config e redirectUri n = Finished res st)"
proof (cases "fetch e constructor \<lparr>req_method = GET, req_url = redirectUri, req_body = None\<rparr>")
  case (Pair out st0)
  show ?thesis
  proof (cases out)
    case (Inl err)
    with Pair show ?thesis by (auto simp: run_def run_config_def)
  next
    case (Inr r)
    with Pair have run: "run e redirectUri = loop e st0 r"
      and cfg: "\<And>n. run_config e redirectUri n = iterate e n (Running st0 r)"
      by (simp_all add: run_def run_config_def)
    show ?thesis
    proof
      assume "run e redirectUri = Some (res, st)"
      with run have "loop e st0 r = Some (res, st)" by simp
      from loop_iterate [OF this] show "\<exists>n. run_config e redirectUri n = Finished res st"
        by (simp add: cfg)
    next
      assume "\<exists>n. run_config e redirectUri n = Finished res st"
      then obtain n where "iterate e n (Running st0 r) = Finished res st" by (auto simp: cfg)
      then show "run e redirectUri = Some (res, st)" by (simp add: run iterate_loop)
    qed
  qed
qed

subsection \<open>The terminal redirect\<close>

text \<open>
  Claim C5, as the specification words it, fails on a fragment whose \<open>error_description\<close> is
  present but empty: \<open>run\<close> joins the parameter and the default with \<open>||\<close>, so the empty
  description gives the message with \<open>Unknown error\<close>, not the message built from the
  (empty) parameter.
\<close>

theorem empty_error_description_counterexample:
  "grant_of_url (demo_env (always []))
      ''https://oauth.vk.com/blank.html#error=access_denied&error_description='' =
    Inl (AuthorizationError ''Failed passed grant access: Unknown error'' AUTHORIZATION_FAILED None)
   \<and> get_param (fragment_params (demo_env (always []))
        ''https://oauth.vk.com/blank.html#error=access_denied&error_description='')
        ''error_description'' = Some []
   \<and> grant_of_url (demo_env (always []))
      ''https://oauth.vk.com/blank.html#error=access_denied&error_description='' \<noteq>
    grant_of_url_spec (demo_env (always []))
      ''https://oauth.vk.com/blank.html#error=access_denied&error_description=''"
  by (simp add: grant_of_url_def grant_of_url_spec_def fragment_params_def has_param_def
        get_param_def substring_def demo_defs)

text \<open>
  Claim C5, amended. For every response whose URL contains the terminal marker, \<open>run\<close> ends
  in that iteration, with the state untouched. With the parameters of the URL fragment: if
  \<open>error\<close> is present the result is the error \<open>AUTHORIZATION_FAILED\<close> whose message is
  \<open>Failed passed grant access: \<close> followed by \<open>error_description\<close>, or by \<open>Unknown error\<close> when
  that parameter is absent or empty; otherwise the result is the grant whose \<open>token\<close> is the
  parameter \<open>access_token\<close> and whose \<open>user\<close> is \<open>Number(user_id)\<close> when \<open>user_id\<close> is present
  and unset when it is absent.
\<close>

theorem terminal_redirect_result:
  assumes "includes_str (url r) (CALLBACK_BLANK e)"
  shows "loop e st r =
     Some (if has_param (fragment_params e (url r)) ''error'' then
             Inl (AuthorizationError
                   (''Failed passed grant access: '' @
                     (case get_param (fragment_params e (url r)) ''error_description'' of
                        None \<Rightarrow> ''Unknown error''
                      | Some d \<Rightarrow> if d = [] then ''Unknown error'' else d))
                   AUTHORIZATION_FAILED None)
           else Inr \<lparr>user = map_option (Number e)
                               (get_param (fragment_params e (url r)) ''user_id''),
                     token = get_param (fragment_params e (url r)) ''access_token''\<rparr>, st)"
proof -
  have "step e st r = Finished (grant_of_url e (url r)) st"
    using assms by (simp add: step_def)
  then have "loop e st r = Some (grant_of_url e (url r), st)"
    by (subst loop.simps) simp
  then show ?thesis
    by (simp add: grant_of_url_def Let_def split: option.split)
qed

theorem terminal_redirect_result_witness:
  "loop (demo_env (always [])) constructor
     \<lparr>url = ''https://oauth.vk.com/blank.html#access_token=tok123&user_id=42'', body_text = []\<rparr> =
   Some (Inr \<lparr>user = Some 42, token = Some ''tok123''\<rparr>, constructor)
   \<and> loop (demo_env (always [])) constructor
     \<lparr>url = ''https://oauth.vk.com/blank.html#access_token=tok123'', body_text = []\<rparr> =
   Some (Inr \<lparr>user = None, token = Some ''tok123''\<rparr>, constructor)
   \<and> loop (demo_env (always [])) constructor
     \<lparr>url = ''https://oauth.vk.com/blank.html#error=access_denied&error_description=User denied'',
      body_text = []\<rparr> =
   Some (Inl (AuthorizationError ''Failed passed grant access: User denied''
                AUTHORIZATION_FAILED None), constructor)"
  using
    terminal_redirect_result [of
      "\<lparr>url = ''https://oauth.vk.com/blank.html#access_token=tok123&user_id=42'', body_text = []\<rparr>"
      "demo_env (always [])" constructor]
    terminal_redirect_result [of
      "\<lparr>url = ''https://oauth.vk.com/blank.html#access_token=tok123'', body_text = []\<rparr>"
      "demo_env (always [])" constructor]
    terminal_redirect_result [of
      "\<lparr>url = ''https://oauth.vk.com/blank.html#error=access_denied&error_description=User denied'',
        body_text = []\<rparr>"
      "demo_env (always [])" constructor]
  by (simp add: fragment_params_def has_param_def get_param_def substring_def demo_defs)

subsection \<open>What every run keeps true\<close>

lemma issued_append [simp]: "issued (xs @ ys) = issued xs @ issued ys"
  by (induction xs rule: issued.induct) simp_all

lemma inv_constructor: "run_inv constructor"
  by (simp add: run_inv_def constructor_def)

lemma inv_fetch: "run_inv st \<Longrightarrow> run_inv (snd (fetch e st rq))"
  by (auto simp: run_inv_def fetch_def)

lemma inv_LoadMarkup: "run_inv st \<Longrightarrow> run_inv (emit (LoadMarkup b) st)"
  by (auto simp: run_inv_def emit_def)

lemma inv_TwoFactor:
  "run_inv st \<Longrightarrow> run_inv (snd (processTwoFactorForm e st r doc))"
  by (auto simp: run_inv_def processTwoFactorForm_def Let_def fetch_def emit_def
        callTwoFactor_def TWO_FACTOR_ATTEMPTS_def split: sum.splits prod.splits)
     (fastforce simp: less_Suc_eq)+

lemma inv_Security:
  "run_inv st \<Longrightarrow> run_inv (snd (processSecurityForm e st r doc))"
  by (auto simp: run_inv_def processSecurityForm_def Let_def fetch_def emit_def
        split: sum.splits prod.splits option.splits)

lemma inv_Validate:
  "run_inv st \<Longrightarrow> run_inv (snd (processValidateForm e st r doc))"
  by (auto simp: run_inv_def processValidateForm_def Let_def fetch_def emit_def
        split: sum.splits prod.splits option.splits)

lemma inv_Captcha:
  "run_inv st \<Longrightarrow> run_inv (snd (processCaptchaForm e st r doc))"
  by (auto simp: run_inv_def processCaptchaForm_def Let_def fetch_def emit_def
        callCaptcha_def incorrect_captcha_def split: sum.splits prod.splits option.splits)
     (fastforce simp: less_Suc_eq)+


lemma inv_continue:
  "run_inv (snd p) \<Longrightarrow> run_inv (config_state (continue p))"
  by (auto simp: continue_def split: prod.splits sum.splits)

lemma inv_step: "run_inv st \<Longrightarrow> run_inv (config_state (step e st r))"
  by (simp add: step_def Let_def inv_continue inv_TwoFactor inv_Security inv_Validate
        inv_Captcha inv_LoadMarkup)

lemma inv_iterate:
  "run_inv (config_state c) \<Longrightarrow> run_inv (config_state (iterate e n c))"
proof (induction n arbitrary: c)
  case 0
  then show ?case by simp
next
  case (Suc n)
  show ?case
  proof (cases c)
    case (Finished res st)
    with Suc.prems show ?thesis by simp
  next
    case (Running st r)
    with Suc.prems have "run_inv (config_state (step e st r))" by (simp add: inv_step)
    then have "run_inv (config_state (iterate e n (step e st r)))" by (rule Suc.IH)
    with Running show ?thesis by simp
  qed
qed

lemma inv_run_config: "run_inv (config_state (run_config e uri n))"
proof -
  obtain res st where p: "fetch e constructor \<lparr>req_method = GET, req_url = uri, req_body = None\<rparr>
                          = (res, st)"
    by (cases "fetch e constructor \<lparr>req_method = GET, req_url = uri, req_body = None\<rparr>")
  have inv: "run_inv st"
    using inv_fetch [OF inv_constructor, of e "\<lparr>req_method = GET, req_url = uri, req_body = None\<rparr>"]
    by (simp add: p)
  show ?thesis
    using inv by (cases res) (simp_all add: run_config_def p inv_iterate)
qed

lemma monitor_None [simp]: "foldl captcha_monitor None evs = None"
  by (induction evs) simp_all

lemma single_captcha_pending_take:
  "single_captcha_pending tr \<Longrightarrow> single_captcha_pending (take k tr)"
proof -
  assume a: "single_captcha_pending tr"
  have "tr = take k tr @ drop k tr" by simp
  then have "foldl captcha_monitor (Some ([], None)) tr =
             foldl captcha_monitor (foldl captcha_monitor (Some ([], None)) (take k tr)) (drop k tr)"
    by (metis foldl_append)
  with a show ?thesis
    by (cases "foldl captcha_monitor (Some ([], None)) (take k tr)")
       (simp_all add: single_captcha_pending_def)
qed

subsection \<open>The requests of an attempt\<close>

lemma requests_append [simp]: "requests (xs @ ys) = requests xs @ requests ys"
  by (induction xs rule: requests.induct) simp_all

lemma iterate_Suc_end:
  "iterate e (Suc n) c =
     (case iterate e n c of Finished res st \<Rightarrow> Finished res st | Running st r \<Rightarrow> step e st r)"
proof (induction n arbitrary: c)
  case 0
  show ?case by (cases c) simp_all
next
  case (Suc n)
  show ?case
  proof (cases c)
    case (Finished res st)
    then show ?thesis by simp
  next
    case (Running st r)
    then have "iterate e (Suc (Suc n)) c = iterate e (Suc n) (step e st r)" by simp
    also have "\<dots> = (case iterate e n (step e st r) of
                        Finished res st \<Rightarrow> Finished res st | Running st r \<Rightarrow> step e st r)"
      by (rule Suc.IH)
    also have "iterate e n (step e st r) = iterate e (Suc n) c" using Running by simp
    finally show ?thesis .
  qed
qed

lemma sends_TwoFactor: "sends e st (processTwoFactorForm e st r doc)"
  by (auto simp: sends_def processTwoFactorForm_def Let_def fetch_def emit_def callTwoFactor_def
        split: if_splits sum.splits prod.splits option.splits)

lemma sends_Security: "sends e st (processSecurityForm e st r doc)"
  by (auto simp: sends_def processSecurityForm_def Let_def fetch_def emit_def
        split: if_splits sum.splits prod.splits option.splits)

lemma sends_Validate: "sends e st (processValidateForm e st r doc)"
  by (auto simp: sends_def processValidateForm_def Let_def fetch_def emit_def
        split: if_splits sum.splits prod.splits option.splits)

lemma sends_Captcha: "sends e st (processCaptchaForm e st r doc)"
  by (auto simp: sends_def processCaptchaForm_def Let_def fetch_def emit_def callCaptcha_def
        split: if_splits sum.splits prod.splits option.splits)

lemma sends_LoadMarkup: "sends e (emit (LoadMarkup b) st) p \<Longrightarrow> sends e st p"
  by (simp add: sends_def emit_def)


lemma step_challenge:
  assumes "is_challenge e (url r)"
  shows "\<exists>p. step e st r = continue p \<and> sends e st p"
proof -
  let ?st0 = "emit (LoadMarkup (body_text r)) st" and ?doc = "cheerioLoad e (body_text r)"
  have "step e st r = continue (processTwoFactorForm e ?st0 r ?doc)
      \<or> step e st r = continue (processSecurityForm e ?st0 r ?doc)
      \<or> step e st r = continue (processValidateForm e ?st0 r ?doc)
      \<or> step e st r = continue (processCaptchaForm e ?st0 r ?doc)"
    using assms by (auto simp: step_def is_challenge_def Let_def)
  moreover have "sends e st (processTwoFactorForm e ?st0 r ?doc)"
    by (rule sends_LoadMarkup [OF sends_TwoFactor])
  moreover have "sends e st (processSecurityForm e ?st0 r ?doc)"
    by (rule sends_LoadMarkup [OF sends_Security])
  moreover have "sends e st (processValidateForm e ?st0 r ?doc)"
    by (rule sends_LoadMarkup [OF sends_Validate])
  moreover have "sends e st (processCaptchaForm e ?st0 r ?doc)"
    by (rule sends_LoadMarkup [OF sends_Captcha])
  ultimately show ?thesis by blast
qed

lemma step_not_challenge:
  assumes "\<not> is_challenge e (url r)"
  shows "\<exists>res st'. step e st r = Finished res st' \<and> fetched st' = fetched st
           \<and> requests (trace st') = requests (trace st)"
  using assms by (auto simp: is_challenge_def step_def Let_def emit_def)

lemma attempt_continue:
  assumes inv: "attempt_inv e (Running st r)"
      and ch: "is_challenge e (url r)"
      and s: "sends e st p"
  shows "attempt_inv e (continue p :: 'a config)"
proof -
  obtain res st' where p: "p = (res, st')" by (cases p)
  let ?rqs = "requests (trace st)"
  from inv have len: "length ?rqs = fetched st" and pos: "0 < fetched st"
    and old: "\<And>j. Suc j < fetched st \<Longrightarrow>
                \<exists>r'. fetchCookie e j (?rqs ! j) = Inr r' \<and> is_challenge e (url r')"
    and cur: "fetchCookie e (fetched st - 1) (?rqs ! (fetched st - 1)) = Inr r"
    by (simp_all add: attempt_inv_def Let_def)
  from s p consider
      (silent) err where "requests (trace st') = ?rqs" "fetched st' = fetched st" "res = Inl err"
    | (sent) rq where "requests (trace st') = ?rqs @ [rq]" "fetched st' = Suc (fetched st)"
        "\<And>r'. res = Inr r' \<Longrightarrow> fetchCookie e (fetched st) rq = Inr r'"
    by (auto simp: sends_def)
  then show ?thesis
  proof cases
    case silent
    with len pos old p show ?thesis
      by (simp add: attempt_inv_def Let_def continue_def)
  next
    case sent
    have all: "\<exists>r'. fetchCookie e j ((?rqs @ [rq]) ! j) = Inr r' \<and> is_challenge e (url r')"
      if "Suc j < Suc (fetched st)" for j
    proof (cases "Suc j < fetched st")
      case True
      with old [OF True] len show ?thesis by (simp add: nth_append)
    next
      case False
      with that pos have "j = fetched st - 1" by simp
      with cur ch len pos show ?thesis by (auto simp: nth_append)
    qed
    show ?thesis
    proof (cases res)
      case (Inl err)
      with sent len all p show ?thesis
        by (simp add: attempt_inv_def Let_def continue_def)
    next
      case (Inr r')
      with sent(3) have "fetchCookie e (fetched st) rq = Inr r'" by simp
      with Inr sent(1,2) len all p show ?thesis
        by (simp add: attempt_inv_def Let_def continue_def nth_append)
    qed
  qed
qed

lemma attempt_step:
  assumes "attempt_inv e (Running st r)"
  shows "attempt_inv e (step e st r)"
proof (cases "is_challenge e (url r)")
  case True
  from step_challenge [OF True, of st] obtain p where
    "step e st r = continue p" "sends e st p" by blast
  with attempt_continue [OF assms True] show ?thesis by simp
next
  case False
  from step_not_challenge [OF False, of st] obtain res st' where
    "step e st r = Finished res st'" "fetched st' = fetched st"
    "requests (trace st') = requests (trace st)" by blast
  with assms show ?thesis by (simp add: attempt_inv_def Let_def)
qed

lemma attempt_iterate:
  "attempt_inv e c \<Longrightarrow> attempt_inv e (iterate e n c)"
proof (induction n)
  case 0
  then show ?case by simp
next
  case (Suc n)
  then have "attempt_inv e (iterate e n c)" by simp
  then show ?case
    by (cases "iterate e n c") (simp_all add: iterate_Suc_end attempt_step del: iterate.simps)
qed

lemma attempt_run_config: "attempt_inv e (run_config e redirectUri n)"
proof -
  let ?rq = "\<lparr>req_method = GET, req_url = redirectUri, req_body = None\<rparr>"
  have "attempt_inv e (case fetch e constructor ?rq of
                         (Inl err, st) \<Rightarrow> Finished (Inl err) st
                       | (Inr response, st) \<Rightarrow> Running st response)"
    by (simp add: fetch_def constructor_def attempt_inv_def Let_def split: sum.splits)
  then show ?thesis
    by (auto simp: run_config_def attempt_iterate split: prod.splits sum.splits)
qed

subsection \<open>The two-factor handler\<close>

text \<open>
  Claim C1 (the handle of the previous pass is the stored TwoFactor pending, a re-entry
  rejects it and counts an attempt, and three wrong codes in a row end the attempt with
  \<open>FAILED_PASSED_TWO_FACTOR\<close>). \<open>processTwoFactorForm\<close> never assigns \<open>twoFactorValidate\<close>: the
  field is unset and the counter is zero after any number of iterations of any run. On a
  portal that answers the first request and three code submissions with the two-factor page
  and the fourth submission with the terminal redirect, \<open>run\<close> asks for four codes, rejects
  no handle, counts no attempt and returns the grant.
\<close>

theorem two_factor_budget_never_charged:
  "twoFactorValidate (config_state (run_config e redirectUri n)) = None
   \<and> twoFactorAttempts (config_state (run_config e redirectUri n)) = 0
   \<and> map_option (\<lambda>(res, st). (res, twoFactorValidate st, twoFactorAttempts st,
                                  issued (trace st), rejected (trace st)))
       (run (demo_env (scripted
          [page_at ''https://m.vk.com/login?act=authcheck'',
           page_at ''https://m.vk.com/login?act=authcheck'',
           page_at ''https://m.vk.com/login?act=authcheck'',
           page_at ''https://m.vk.com/login?act=authcheck'',
           page_at ''https://oauth.vk.com/blank.html#access_token=tok123&user_id=42'']))
         ''https://oauth.vk.com/authorize'')
     = Some (Inr \<lparr>user = Some 42, token = Some ''tok123''\<rparr>, None, 0, [0, 1, 2, 3], [])"
proof -
  have "run_inv (config_state (run_config e redirectUri n))"
    by (rule inv_run_config)
  then have a: "twoFactorValidate (config_state (run_config e redirectUri n)) = None
      \<and> twoFactorAttempts (config_state (run_config e redirectUri n)) = 0"
    by (simp add: run_inv_def)
  have b: "map_option (\<lambda>(res, st). (res, twoFactorValidate st, twoFactorAttempts st,
                                  issued (trace st), rejected (trace st)))
       (run (demo_env (scripted
          [page_at ''https://m.vk.com/login?act=authcheck'',
           page_at ''https://m.vk.com/login?act=authcheck'',
           page_at ''https://m.vk.com/login?act=authcheck'',
           page_at ''https://m.vk.com/login?act=authcheck'',
           page_at ''https://oauth.vk.com/blank.html#access_token=tok123&user_id=42'']))
         ''https://oauth.vk.com/authorize'')
     = Some (Inr \<lparr>user = Some 42, token = Some ''tok123''\<rparr>, None, 0, [0, 1, 2, 3], [])"
    by (simp add: run_def loop.simps handler_defs marker_defs demo_defs constructor_def)
  from a b show ?thesis by simp
qed

subsection \<open>Pending validations when run fails\<close>

text \<open>
  Claim C2 (every pending validation is rejected before an error leaves \<open>run\<close>; a failed
  challenge POST first rejects the pending two-factor or captcha validation).
  \<open>processTwoFactorForm\<close> wraps its POST in \<open>try\<close>/\<open>catch\<close> and rejects the handle;
  \<open>processCaptchaForm\<close> does not. On a portal that answers the first request with the captcha
  page and lets the captcha POST time out, \<open>run\<close> throws the transport error while the captcha
  handle 0 is still stored and outstanding: nothing has been rejected.
\<close>

theorem captcha_pending_left_open_on_transport_failure:
  "map_option (\<lambda>(res, st). (res, captchaValidate st, issued (trace st), rejected (trace st),
                                outstanding (trace st)))
     (run (demo_env (scripted [page_at ''https://m.vk.com/login?act=captcha'']))
       ''https://oauth.vk.com/authorize'')
   = Some (Inl (ExternalError ''network timeout''), Some 0, [0], [], [0])"
  by (simp add: run_def loop.simps step_def continue_def processCaptchaForm_def fetch_def emit_def
        callCaptcha_def get_field_def outstanding_def marker_defs demo_defs constructor_def)

subsection \<open>The captcha handler\<close>

lemma captcha_handler_rejects_first:
  assumes "captchaValidate st = Some h"
      and "payload = \<lparr>captcha_type = ACCOUNT_VERIFICATION,
                       sid = get_field (snd (parseFormField e doc)) ''captcha_sid'',
                       src = captcha_img_src e doc\<rparr>"
      and "fresh = (case processingCaptcha e (asked st) payload of
                      Inl err \<Rightarrow> None | Inr key \<Rightarrow> Some (asked st))"
  shows "(\<exists>rest. trace (snd (processCaptchaForm e st response doc)) =
            trace st @ Reject h incorrect_captcha # ParseFormField #
              ProcessingCaptcha payload fresh # rest)
         \<and> captchaAttempts (snd (processCaptchaForm e st response doc)) = captchaAttempts st + 1
         \<and> captchaValidate (snd (processCaptchaForm e st response doc)) = fresh"
  using assms
  by (auto simp: processCaptchaForm_def Let_def fetch_def emit_def callCaptcha_def
        incorrect_captcha_def split: sum.splits prod.splits)

text \<open>
  The captcha kind keeps the invariant. After any number of iterations of any run, every
  prefix of the calls made so far is accepted by the captcha monitor (a captcha request
  returns a handle only while no captcha handle is open, the open handle is rejected with
  \<open>FAILED_PASSED_CAPTCHA\<close> and no page markup, no captcha handle is rejected twice), and no
  handle is given out twice. Whenever \<open>processCaptchaForm\<close> is entered with a stored handle,
  its first call rejects that handle, the form is read and the new request is made only
  after that, the field then holds what the new request returned, and the captcha attempt
  counter is one higher.
\<close>

lemma captcha_kind_single_pending:
  "single_captcha_pending (take k (trace (config_state (run_config e redirectUri n))))
   \<and> distinct (issued (trace (config_state (run_config e redirectUri n))))
   \<and> (captchaValidate st = Some h \<longrightarrow>
        (\<exists>payload fresh rest.
            trace (snd (processCaptchaForm e st response doc)) =
              trace st @
              Reject h (AuthorizationError ''Incorrect captcha code'' FAILED_PASSED_CAPTCHA None) #
              ParseFormField # ProcessingCaptcha payload fresh # rest
            \<and> captchaValidate (snd (processCaptchaForm e st response doc)) = fresh)
        \<and> captchaAttempts (snd (processCaptchaForm e st response doc)) = captchaAttempts st + 1)"
proof -
  have inv: "run_inv (config_state (run_config e redirectUri n))"
    by (rule inv_run_config)
  then have "single_captcha_pending (trace (config_state (run_config e redirectUri n)))"
    by (auto simp: run_inv_def single_captcha_pending_def)
  then have a: "single_captcha_pending (take k (trace (config_state (run_config e redirectUri n))))"
    by (rule single_captcha_pending_take)
  from inv have b: "distinct (issued (trace (config_state (run_config e redirectUri n))))"
    by (simp add: run_inv_def)
  have c: "captchaValidate st = Some h \<Longrightarrow>
        (\<exists>payload fresh rest.
            trace (snd (processCaptchaForm e st response doc)) =
              trace st @
              Reject h (AuthorizationError ''Incorrect captcha code'' FAILED_PASSED_CAPTCHA None) #
              ParseFormField # ProcessingCaptcha payload fresh # rest
            \<and> captchaValidate (snd (processCaptchaForm e st response doc)) = fresh)
        \<and> captchaAttempts (snd (processCaptchaForm e st response doc)) = captchaAttempts st + 1"
    using captcha_handler_rejects_first [OF _ refl refl, where st = st and h = h and e = e
        and doc = doc and response = response]
    unfolding incorrect_captcha_def by blast
  from a b c show ?thesis by blast
qed

text \<open>
  Claim C3 (at every point of an attempt at most one pending validation exists per
  challenge kind; a new request of a kind is made only after the open handle of that kind
  has been rejected). It holds of the captcha kind and fails for the two-factor kind,
  because \<open>processTwoFactorForm\<close> never stores the handle it gets. On a portal that answers
  the first request and the first code submission with the two-factor page and the second
  submission with the terminal redirect, the second two-factor request is made while the
  handle of the first is open; \<open>run\<close> returns the grant with the two-factor handles 0 and 1
  both pending and nothing rejected.
\<close>

theorem two_factor_pendings_pile_up:
  "map_option (\<lambda>(res, st). (res, pending_of TwoFactor (trace st), pending_of Captcha (trace st),
                                rejected (trace st)))
     (run (demo_env (scripted
        [page_at ''https://m.vk.com/login?act=authcheck'',
         page_at ''https://m.vk.com/login?act=authcheck'',
         page_at ''https://oauth.vk.com/blank.html#access_token=tok123&user_id=42'']))
       ''https://oauth.vk.com/authorize'')
   = Some (Inr \<lparr>user = Some 42, token = Some ''tok123''\<rparr>, [0, 1], [], [])"
  by (simp add: run_def loop.simps handler_defs marker_defs demo_defs constructor_def pending_of_def)

subsection \<open>Termination of run\<close>

lemma captcha_portal_step:
  assumes "url r = ''https://m.vk.com/login?act=captcha''"
  shows "\<exists>st'. step (demo_env (always ''https://m.vk.com/login?act=captcha'')) st r =
           (Running st' \<lparr>url = ''https://m.vk.com/login?act=captcha'',
                         body_text = ''<html></html>''\<rparr> :: nat config)"
  using assms
  by (cases "captchaValidate st")
     (simp_all add: step_def continue_def processCaptchaForm_def fetch_def emit_def callCaptcha_def
        get_field_def marker_defs demo_defs)

lemma captcha_portal_iterate:
  assumes "url r = ''https://m.vk.com/login?act=captcha''"
  shows "\<exists>st' r'. iterate (demo_env (always ''https://m.vk.com/login?act=captcha'')) n
            (Running st r) = (Running st' r' :: nat config)
          \<and> url r' = ''https://m.vk.com/login?act=captcha''"
  using assms
proof (induction n arbitrary: st r)
  case 0
  then show ?case by simp
next
  case (Suc n)
  from captcha_portal_step [OF Suc.prems, of st] obtain st1 where
    s: "step (demo_env (always ''https://m.vk.com/login?act=captcha'')) st r =
           (Running st1 \<lparr>url = ''https://m.vk.com/login?act=captcha'',
                         body_text = ''<html></html>''\<rparr> :: nat config)"
    by blast
  have "url \<lparr>url = ''https://m.vk.com/login?act=captcha'', body_text = ''<html></html>''\<rparr>
          = ''https://m.vk.com/login?act=captcha''" by simp
  from Suc.IH [OF this, of st1] s show ?case by simp
qed

text \<open>
  Claim C4, as stated, fails: on a portal that answers every request with the captcha page
  \<open>run\<close> never returns. \<open>processCaptchaForm\<close> counts its attempts and never compares the
  counter with a bound.
\<close>

theorem captcha_portal_never_terminates:
  "run (demo_env (always ''https://m.vk.com/login?act=captcha'')) ''https://oauth.vk.com/authorize''
     = (None :: ((error + nat grant) \<times> state) option)"
proof (rule ccontr)
  let ?e = "demo_env (always ''https://m.vk.com/login?act=captcha'') :: (nat, page) env"
  let ?r = "\<lparr>url = ''https://m.vk.com/login?act=captcha'', body_text = ''<html></html>''\<rparr>"
  assume "run ?e ''https://oauth.vk.com/authorize'' \<noteq> None"
  then obtain x where x: "run ?e ''https://oauth.vk.com/authorize'' = Some x" by blast
  obtain st where "run ?e ''https://oauth.vk.com/authorize'' = loop ?e st ?r"
    by (simp add: run_def fetch_def demo_defs)
  with x have "loop ?e st ?r = Some x" by simp
  from loop_iterate [OF this] obtain n where
    "iterate ?e n (Running st ?r) = Finished (fst x) (snd x)" by blast
  moreover have "url ?r = ''https://m.vk.com/login?act=captcha''" by simp
  from captcha_portal_iterate [OF this, of n st] obtain st' r' where
    "iterate ?e n (Running st ?r) = (Running st' r' :: nat config)" by blast
  ultimately show False by simp
qed

text \<open>
  Claim C4, amended. The loop has no bound of its own. If, at some point of the attempt,
  the answer to the \<open>k\<close>-th request sent so far (counted from 0) is a failure or a page whose
  URL is terminal or contains no challenge marker, then \<open>run\<close> returns (a grant or an error),
  and it has then sent exactly \<open>k + 1\<close> requests; the callback service is taken to answer
  every call.
\<close>

theorem run_returns_once_an_answer_leaves_the_challenges:
  assumes "k < length (requests (trace (config_state (run_config e redirectUri n))))"
      and "case fetchCookie e k (requests (trace (config_state (run_config e redirectUri n))) ! k) of
             Inl err \<Rightarrow> True
           | Inr r \<Rightarrow> \<not> is_challenge e (url r)"
  shows "\<exists>res st. run e redirectUri = Some (res, st) \<and> fetched st = Suc k"
proof -
  let ?c = "run_config e redirectUri n"
  let ?rqs = "requests (trace (config_state ?c))"
  have inv: "attempt_inv e ?c" by (rule attempt_run_config)
  then have len: "length ?rqs = fetched (config_state ?c)"
    and old: "\<And>j. Suc j < fetched (config_state ?c) \<Longrightarrow>
                \<exists>r. fetchCookie e j (?rqs ! j) = Inr r \<and> is_challenge e (url r)"
    by (simp_all add: attempt_inv_def Let_def)
  have last: "fetched (config_state ?c) = Suc k"
  proof (rule ccontr)
    assume "fetched (config_state ?c) \<noteq> Suc k"
    with assms(1) len have "Suc k < fetched (config_state ?c)" by simp
    from old [OF this] assms(2) show False by auto
  qed
  show ?thesis
  proof (cases ?c)
    case (Finished res st)
    then have "run e redirectUri = Some (res, st)"
      using run_eq_Some_iff [of e redirectUri res st] by blast
    with Finished last show ?thesis by simp
  next
    case (Running st r)
    with inv last have "fetchCookie e k (?rqs ! k) = Inr r"
      by (simp add: attempt_inv_def Let_def)
    with assms(2) have "\<not> is_challenge e (url r)" by simp
    from step_not_challenge [OF this, of st] obtain res st' where
      st: "step e st r = Finished res st'" "fetched st' = fetched st" by blast
    have "run_config e redirectUri (Suc n) = Finished res st'"
    proof (cases "fetch e constructor \<lparr>req_method = GET, req_url = redirectUri, req_body = None\<rparr>")
      case (Pair out st0)
      show ?thesis
      proof (cases out)
        case (Inl err)
        with Pair Running show ?thesis by (simp add: run_config_def)
      next
        case (Inr r0)
        with Pair Running st show ?thesis
          by (simp add: run_config_def iterate_Suc_end del: iterate.simps)
      qed
    qed
    then have "run e redirectUri = Some (res, st')"
      using run_eq_Some_iff [of e redirectUri res st'] by blast
    with st(2) Running last show ?thesis by simp
  qed
qed

theorem run_returns_once_an_answer_leaves_the_challenges_witness:
  "map_option (\<lambda>(res, st). (res, fetched st))
     (run (demo_env (code_checking ''000000'')) ''https://oauth.vk.com/authorize'')
   = Some (Inr \<lparr>user = Some 42, token = Some ''tok123''\<rparr>, 2)"
  using run_returns_once_an_answer_leaves_the_challenges [where e = "demo_env (code_checking ''000000'')" and k = 1 and n = "Suc 0"
      and redirectUri = "''https://oauth.vk.com/authorize''"]
  by (simp add: run_def run_config_def loop.simps handler_defs marker_defs demo_defs constructor_def
        is_challenge_def)

subsection \<open>The security-code handler\<close>

lemma trim_core:
  assumes "list_all is_space ws" and "list_all is_space ws'"
      and "t = [] \<or> (\<not> is_space (hd t) \<and> \<not> is_space (last t))"
  shows "trim (ws @ t @ ws') = t"
proof (cases "t = []")
  case True
  from assms(1,2) have "\<forall>x \<in> set (ws @ ws'). is_space x"
    by (auto simp: list_all_iff)
  then have d: "dropWhile is_space (ws @ ws') = []"
    by (simp only: dropWhile_eq_Nil_conv)
  show ?thesis
    unfolding True append_Nil trim_def d by simp
next
  case False
  with assms(3) have h: "\<not> is_space (hd t)" and l: "\<not> is_space (last t)" by simp_all
  from assms(1) have "\<And>x. x \<in> set ws \<Longrightarrow> is_space x"
    by (simp add: list_all_iff)
  then have "dropWhile is_space (ws @ t @ ws') = dropWhile is_space (t @ ws')"
    by (rule dropWhile_append2)
  also from False h have "\<dots> = t @ ws'"
    by (cases t) simp_all
  finally have a: "dropWhile is_space (ws @ t @ ws') = t @ ws'" .
  from assms(2) have "\<And>x. x \<in> set (rev ws') \<Longrightarrow> is_space x"
    by (simp add: list_all_iff)
  then have "dropWhile is_space (rev ws' @ rev t) = dropWhile is_space (rev t)"
    by (rule dropWhile_append2)
  also from False l have "\<dots> = rev t"
    by (cases "rev t") (simp_all add: last_rev [symmetric] hd_rev)
  finally show ?thesis by (simp add: trim_def a)
qed

lemma slice_to_end:
  "slice s (int p) (int (length s) - int q) =
     take ((if q \<le> length s then length s - q else 2 * length s - q) - p) (drop p s)"
  by (auto simp: slice_def Let_def min_def max_def nat_diff_distrib' nat_mult_distrib not_le)

lemma processSecurityForm_candidate:
  assumes "phone_candidate e = Some c"
      and "parseFormField e doc = (action, flds)"
      and "getFullURL e action response = Inr u"
      and "rq = \<lparr>req_method = POST, req_url = u,
                 req_body = Some (set_field ''code''
                   (slice (normalize_number e c) (int (prefix_length e doc))
                      (int (length (normalize_number e c)) - int (postfix_length e doc))) flds)\<rparr>"
      and "st2 = st\<lparr>fetched := Suc (fetched st), trace := trace st @ [ParseFormField, Fetch rq]\<rparr>"
  shows "processSecurityForm e st response doc =
           (case fetchCookie e (fetched st) rq of
              Inl err \<Rightarrow> (Inl err, st2)
            | Inr rewResponse \<Rightarrow>
                if includes_str (url rewResponse) ACTION_SECURITY_CODE
                then (Inl (AuthorizationError ''Invalid phone number'' INVALID_PHONE_NUMBER None), st2)
                else (Inr rewResponse, st2))"
  using assms(1-3) unfolding assms(4,5)
  by (simp add: processSecurityForm_def Let_def fetch_def emit_def)

text \<open>
  Claim C6, as the specification words it, fails. The handler trims the first label and
  then removes its first \<open>+\<close>, so the label \<open>+ 7\<close> counts 2 characters, not the 1 that is left
  when the \<open>+\<close> is removed before trimming; and it converts the candidate with \<open>String\<close>
  without removing anything else, so the phone \<open>+7 (912) 345-67-89\<close> is sliced with its
  spaces, brackets and hyphens, not as a plain digit string.
\<close>

theorem security_code_wording_counterexample:
  "trace (snd (processSecurityForm (demo_env (always ''https://m.vk.com/feed'')) constructor
       \<lparr>url = ''https://m.vk.com/login?act=security'', body_text = []\<rparr>
       ((demo_page [])\<lparr>page_prefixes := [''+ 7'', ''90'']\<rparr>))) =
    [ParseFormField,
     Fetch \<lparr>req_method = POST, req_url = ''https://m.vk.com/login?act=submit'',
            req_body = Some [(''captcha_sid'', ''777''), (''code'', ''2345678'')]\<rparr>]
   \<and> security_code_spec (demo_env (always ''https://m.vk.com/feed''))
        (PhoneString ''+71234567890'') ((demo_page [])\<lparr>page_prefixes := [''+ 7'', ''90'']\<rparr>)
      = ''12345678''
   \<and> trace (snd (processSecurityForm
        ((demo_env (always ''https://m.vk.com/feed''))
           \<lparr>opt_phone := Some (PhoneString ''+7 (912) 345-67-89'')\<rparr>)
        constructor
        \<lparr>url = ''https://m.vk.com/login?act=security'', body_text = []\<rparr>
        ((demo_page [])\<lparr>page_prefixes := [''+7'', ''89'']\<rparr>))) =
    [ParseFormField,
     Fetch \<lparr>req_method = POST, req_url = ''https://m.vk.com/login?act=submit'',
            req_body = Some [(''captcha_sid'', ''777''), (''code'', '' (912) 345-67-'')]\<rparr>]
   \<and> security_code_spec (demo_env (always ''https://m.vk.com/feed''))
        (PhoneString ''+7 (912) 345-67-89'') ((demo_page [])\<lparr>page_prefixes := [''+7'', ''89'']\<rparr>)
      = ''91234567''"
  by (simp add: processSecurityForm_def security_code_spec_def phone_candidate_def
        normalize_number_def prefix_length_def postfix_length_def first_text_def last_text_def
        trim_def is_space_def is_digit_def replace_first_plus_def replace_leading_plus_or_00_def
        slice_def fetch_def emit_def Let_def constructor_def demo_defs)

text \<open>
  Claim C6, amended. When a phone candidate is available and the form action resolves to a
  URL, the handler reads the form and sends one POST to that URL whose \<open>code\<close> field is
  \<open>number.slice(prefix, number.length - postfix)\<close>, where \<open>number\<close> is the candidate trimmed
  and then without one leading \<open>+\<close> or \<open>00\<close> when it is a string and \<open>String(candidate)\<close> when
  it is a number (no other character is removed), \<open>prefix\<close> is the length of the first
  \<open>.field_prefix\<close> text trimmed and then without its first \<open>+\<close>, and \<open>postfix\<close> is the length
  of the last \<open>.field_prefix\<close> text trimmed. Here trimming removes exactly the white space
  around the rest, the leading \<open>+\<close> or \<open>00\<close> is removed once and nothing else is, only the
  first \<open>+\<close> of the label is removed, and the slice is the number without its first \<open>prefix\<close>
  characters and without its last \<open>postfix\<close> ones (when \<open>postfix\<close> exceeds the length, the
  negative end counts from the end of the number).
\<close>

theorem security_code_submitted:
  assumes "phone_candidate e = Some c"
      and "parseFormField e doc = (action, flds)"
      and "getFullURL e action response = Inr u"
  shows "trace (snd (processSecurityForm e st response doc)) =
           trace st @
           [ParseFormField,
            Fetch \<lparr>req_method = POST, req_url = u,
                   req_body = Some (set_field ''code''
                     (let number = (case c of
                                      PhoneString s \<Rightarrow> replace_leading_plus_or_00 (trim s)
                                    | PhoneNumber n \<Rightarrow> String e n);
                          prefix = length (replace_first_plus
                                     (trim (first_text (field_prefix_texts e doc))));
                          suffix = length (trim (last_text (field_prefix_texts e doc)))
                      in slice number (int prefix) (int (length number) - int suffix))
                     flds)\<rparr>]
         \<and> (list_all is_space ws \<and> list_all is_space ws' \<and>
              (t = [] \<or> (\<not> is_space (hd t) \<and> \<not> is_space (last t)))
              \<longrightarrow> trim (ws @ t @ ws') = t)
         \<and> replace_leading_plus_or_00 (CHR ''+'' # x) = x
         \<and> replace_leading_plus_or_00 (CHR ''0'' # CHR ''0'' # x) = x
         \<and> (\<not> startsWith y ''+'' \<and> \<not> startsWith y ''00'' \<longrightarrow> replace_leading_plus_or_00 y = y)
         \<and> (CHR ''+'' \<notin> set a \<longrightarrow>
              replace_first_plus (a @ CHR ''+'' # b) = a @ b \<and> replace_first_plus a = a)
         \<and> slice z (int p) (int (length z) - int q) =
             take ((if q \<le> length z then length z - q else 2 * length z - q) - p) (drop p z)
         \<and> first_text (l # ls) = l \<and> last_text (ls @ [l]) = l
         \<and> first_text [] = [] \<and> last_text [] = []"
proof -
  have tr: "trace (snd (processSecurityForm e st response doc)) =
           trace st @
           [ParseFormField,
            Fetch \<lparr>req_method = POST, req_url = u,
                   req_body = Some (set_field ''code''
                     (let number = (case c of
                                      PhoneString s \<Rightarrow> replace_leading_plus_or_00 (trim s)
                                    | PhoneNumber n \<Rightarrow> String e n);
                          prefix = length (replace_first_plus
                                     (trim (first_text (field_prefix_texts e doc))));
                          suffix = length (trim (last_text (field_prefix_texts e doc)))
                      in slice number (int prefix) (int (length number) - int suffix))
                     flds)\<rparr>]"
    unfolding processSecurityForm_candidate [OF assms refl refl]
    by (simp add: normalize_number_def prefix_length_def postfix_length_def Let_def
          split: sum.split)
  have lead: "replace_leading_plus_or_00 (CHR ''+'' # x) = x"
    "replace_leading_plus_or_00 (CHR ''0'' # CHR ''0'' # x) = x"
    "\<not> startsWith y ''+'' \<and> \<not> startsWith y ''00'' \<longrightarrow> replace_leading_plus_or_00 y = y"
    by (simp_all add: replace_leading_plus_or_00_def)
  have plus: "CHR ''+'' \<notin> set a \<longrightarrow>
              replace_first_plus (a @ CHR ''+'' # b) = a @ b \<and> replace_first_plus a = a"
    by (simp add: replace_first_plus_def remove1_append remove1_idem)
  have texts: "first_text (l # ls) = l \<and> last_text (ls @ [l]) = l
         \<and> first_text [] = [] \<and> last_text [] = []"
    by (cases ls) (simp_all add: first_text_def last_text_def)
  from tr lead plus texts trim_core [of ws ws' t] slice_to_end [of z p q] show ?thesis
    by blast
qed

theorem security_code_submitted_witness:
  "trace (snd (processSecurityForm
       ((demo_env (always ''https://m.vk.com/feed''))
          \<lparr>opt_phone := Some (PhoneString
             ([CHR 0xA0, CHR '' ''] @ ''+71234567890'' @ [CHR 0x0D, CHR 0x0A]))\<rparr>)
       constructor
       \<lparr>url = ''https://m.vk.com/login?act=security'', body_text = []\<rparr>
       ((demo_page [])\<lparr>page_prefixes :=
           [[CHR 0x09] @ ''+71'' @ [CHR 0x0B], ''**'', [CHR 0x0C] @ ''890'' @ '' '']\<rparr>))) =
    [ParseFormField,
     Fetch \<lparr>req_method = POST, req_url = ''https://m.vk.com/login?act=submit'',
            req_body = Some [(''captcha_sid'', ''777''), (''code'', ''234567'')]\<rparr>]
   \<and> trim ([CHR 0xA0, CHR '' ''] @ ''+71234567890'' @ [CHR 0x0D, CHR 0x0A]) = ''+71234567890''
   \<and> replace_leading_plus_or_00 ''+71234567890'' = ''71234567890''
   \<and> replace_leading_plus_or_00 ''0071234567890'' = ''71234567890''
   \<and> replace_first_plus ''+7+1'' = ''7+1''
   \<and> slice ''71234567890'' 2 9 = ''2345678''"
proof -
  let ?e = "(demo_env (always ''https://m.vk.com/feed''))
              \<lparr>opt_phone := Some (PhoneString
                 ([CHR 0xA0, CHR '' ''] @ ''+71234567890'' @ [CHR 0x0D, CHR 0x0A]))\<rparr>
            :: (nat, page) env"
  let ?r = "\<lparr>url = ''https://m.vk.com/login?act=security'', body_text = []\<rparr>"
  let ?doc = "(demo_page [])\<lparr>page_prefixes :=
           [[CHR 0x09] @ ''+71'' @ [CHR 0x0B], ''**'', [CHR 0x0C] @ ''890'' @ '' '']\<rparr>"
  have c: "phone_candidate ?e =
             Some (PhoneString ([CHR 0xA0, CHR '' ''] @ ''+71234567890'' @ [CHR 0x0D, CHR 0x0A]))"
    by (simp add: phone_candidate_def demo_env_def)
  have f: "parseFormField ?e ?doc =
             (Some ''/login?act=submit'', [(''captcha_sid'', ''777''), (''code'', [])])"
    by (simp add: demo_env_def demo_page_def)
  have g: "getFullURL ?e (Some ''/login?act=submit'') ?r = Inr ''https://m.vk.com/login?act=submit''"
    by (simp add: demo_env_def demo_getFullURL_def)
  have sp: "list_all is_space [CHR 0xA0, CHR '' '']" "list_all is_space [CHR 0x0D, CHR 0x0A]"
    "\<not> is_space (CHR ''+'')" "\<not> is_space (CHR ''0'')"
    by (simp_all add: is_space_def)
  from security_code_submitted [OF c f g, where st = constructor
      and ws = "[CHR 0xA0, CHR '' '']" and ws' = "[CHR 0x0D, CHR 0x0A]"
      and t = "''+71234567890''" and x = "''71234567890''" and y = "''71''" and a = "[]"
      and b = "''7+1''" and z = "''71234567890''" and p = 2 and q = 2
      and l = "''+71''" and ls = "[]"] sp
  show ?thesis
    by (simp add: constructor_def demo_env_def demo_page_def first_text_def last_text_def
          trim_def is_space_def replace_first_plus_def replace_leading_plus_or_00_def
          slice_def)
qed

text \<open>
  Claim C7. With no \<open>phone\<close> option and a \<open>login\<close> option that is absent or contains \<open>@\<close>, the
  handler throws \<open>INVALID_PHONE_NUMBER\<close> (message
  \<open>Missing phone number in the phone or login field\<close>) and leaves the state as it was: the
  form has not been read and no request has been sent. A configured \<open>phone\<close> is the candidate
  whatever the \<open>login\<close>.
\<close>

theorem missing_phone_fails_before_form_extraction:
  "(opt_phone e = None \<and> (opt_login e = None \<or> (\<exists>l. opt_login e = Some l \<and> includes_str l ''@''))
      \<longrightarrow> processSecurityForm e st response doc =
            (Inl (AuthorizationError ''Missing phone number in the phone or login field''
                    INVALID_PHONE_NUMBER None), st))
   \<and> (opt_phone e = Some p \<longrightarrow> phone_candidate e = Some p)"
  by (auto simp: processSecurityForm_def phone_candidate_def)

theorem missing_phone_fails_before_form_extraction_witness:
  "processSecurityForm
     ((demo_env (always ''https://m.vk.com/feed''))
        \<lparr>opt_login := Some ''user@example.com'', opt_phone := None\<rparr>)
     constructor \<lparr>url = ''https://m.vk.com/login?act=security'', body_text = []\<rparr> (demo_page [])
   = (Inl (AuthorizationError ''Missing phone number in the phone or login field''
             INVALID_PHONE_NUMBER None), constructor)
   \<and> phone_candidate ((demo_env (always ''https://m.vk.com/feed''))
        \<lparr>opt_login := Some ''79001234567''\<rparr>) = Some (PhoneString ''+71234567890'')"
  using
    missing_phone_fails_before_form_extraction [where e = "(demo_env (always ''https://m.vk.com/feed''))
          \<lparr>opt_login := Some ''user@example.com'', opt_phone := None\<rparr>"
        and st = constructor and doc = "demo_page []"
        and response = "\<lparr>url = ''https://m.vk.com/login?act=security'', body_text = []\<rparr>"]
    missing_phone_fails_before_form_extraction [where e = "(demo_env (always ''https://m.vk.com/feed''))
          \<lparr>opt_login := Some ''79001234567''\<rparr>"
        and p = "PhoneString ''+71234567890''"]
  by (simp add: demo_env_def)

text \<open>
  Claim C8. When the security-code POST is answered with a response, the handler throws
  \<open>INVALID_PHONE_NUMBER\<close> if the URL of that response contains \<open>act=security\<close>, and otherwise
  returns that very response, which the loop takes as its next response.
\<close>

theorem security_code_response_outcome:
  assumes "phone_candidate e = Some c"
      and "parseFormField e doc = (action, flds)"
      and "getFullURL e action response = Inr u"
      and "code = slice (normalize_number e c) (int (prefix_length e doc))
                    (int (length (normalize_number e c)) - int (postfix_length e doc))"
      and "fetchCookie e (fetched st)
             \<lparr>req_method = POST, req_url = u, req_body = Some (set_field ''code'' code flds)\<rparr>
           = Inr rewResponse"
  shows "fst (processSecurityForm e st response doc) =
           (if includes_str (url rewResponse) ACTION_SECURITY_CODE
            then Inl (AuthorizationError ''Invalid phone number'' INVALID_PHONE_NUMBER None)
            else Inr rewResponse)
         \<and> (\<not> includes_str (url rewResponse) ACTION_SECURITY_CODE \<longrightarrow>
              continue (processSecurityForm e st response doc) =
              (Running (snd (processSecurityForm e st response doc)) rewResponse :: 'a config))"
  using assms
  by (simp add: processSecurityForm_def Let_def fetch_def emit_def continue_def)

theorem security_code_response_outcome_witness:
  "fst (processSecurityForm (demo_env (always ''https://m.vk.com/login?act=security&again=1''))
          constructor \<lparr>url = ''https://m.vk.com/login?act=security'', body_text = []\<rparr>
          (demo_page []))
     = Inl (AuthorizationError ''Invalid phone number'' INVALID_PHONE_NUMBER None)
   \<and> fst (processSecurityForm (demo_env (always ''https://m.vk.com/feed''))
          constructor \<lparr>url = ''https://m.vk.com/login?act=security'', body_text = []\<rparr>
          (demo_page []))
     = Inr \<lparr>url = ''https://m.vk.com/feed'', body_text = ''<html></html>''\<rparr>"
  using
    security_code_response_outcome [where e = "demo_env (always ''https://m.vk.com/login?act=security&again=1'')"
        and c = "PhoneString ''+71234567890''" and doc = "demo_page []"
        and action = "Some ''/login?act=submit''"
        and flds = "[(''captcha_sid'', ''777''), (''code'', [])]"
        and response = "\<lparr>url = ''https://m.vk.com/login?act=security'', body_text = []\<rparr>"
        and u = "''https://m.vk.com/login?act=submit''" and code = "''2345678''"
        and st = constructor
        and rewResponse = "\<lparr>url = ''https://m.vk.com/login?act=security&again=1'',
                             body_text = ''<html></html>''\<rparr>"]
    security_code_response_outcome [where e = "demo_env (always ''https://m.vk.com/feed'')"
        and c = "PhoneString ''+71234567890''" and doc = "demo_page []"
        and action = "Some ''/login?act=submit''"
        and flds = "[(''captcha_sid'', ''777''), (''code'', [])]"
        and response = "\<lparr>url = ''https://m.vk.com/login?act=security'', body_text = []\<rparr>"
        and u = "''https://m.vk.com/login?act=submit''" and code = "''2345678''"
        and st = constructor
        and rewResponse = "\<lparr>url = ''https://m.vk.com/feed'', body_text = ''<html></html>''\<rparr>"]
  by (auto simp add: demo_defs marker_defs phone_candidate_def normalize_number_def
        prefix_length_def postfix_length_def first_text_def last_text_def trim_def is_space_def
        replace_first_plus_def replace_leading_plus_or_00_def slice_def constructor_def)

subsection \<open>The dispatch of run\<close>

text \<open>
  Claim C9. When the URL of the current response contains neither the terminal marker nor
  one of the four action markers, \<open>run\<close> loads the markup and throws
  \<open>AUTHORIZATION_FAILED\<close> with the message \<open>Account verification failed\<close>.
\<close>

theorem unknown_page_fails:
  assumes "\<not> includes_str (url r) (CALLBACK_BLANK e)"
      and "\<not> includes_str (url r) ACTION_AUTH_CODE"
      and "\<not> includes_str (url r) ACTION_SECURITY_CODE"
      and "\<not> includes_str (url r) ACTION_VALIDATE"
      and "\<not> includes_str (url r) ACTION_CAPTCHA"
  shows "loop e st r =
           Some (Inl (AuthorizationError ''Account verification failed'' AUTHORIZATION_FAILED None),
                 emit (LoadMarkup (body_text r)) st)"
  using assms by (subst loop.simps) (simp add: step_def Let_def)

theorem unknown_page_fails_witness:
  "loop (demo_env (always [])) constructor \<lparr>url = ''https://m.vk.com/feed'', body_text = ''<p>''\<rparr>
   = Some (Inl (AuthorizationError ''Account verification failed'' AUTHORIZATION_FAILED None),
           constructor\<lparr>trace := [LoadMarkup ''<p>'']\<rparr>)"
  using unknown_page_fails [where e = "demo_env (always [])" and st = constructor
      and r = "\<lparr>url = ''https://m.vk.com/feed'', body_text = ''<p>''\<rparr>"]
  by (simp add: demo_defs marker_defs emit_def constructor_def)

text \<open>
  Claim C10. An iteration of \<open>run\<close> does what belongs to the first marker its URL contains,
  the markers taken in the order terminal, \<open>act=authcheck\<close>, \<open>act=security\<close>, \<open>act=validate\<close>,
  \<open>act=captcha\<close>. A URL that contains the terminal marker ends the run with the result of
  its fragment whatever else it contains, and the calls made so far are unchanged: the
  markup is not loaded.
\<close>

theorem markers_tested_in_fixed_order:
  "step e st r =
     (let doc = cheerioLoad e (body_text r);
          st0 = emit (LoadMarkup (body_text r)) st
      in case classify e (url r) of
           Terminal \<Rightarrow> Finished (grant_of_url e (url r)) st
         | TwoFactor \<Rightarrow> continue (processTwoFactorForm e st0 r doc)
         | SecurityCode \<Rightarrow> continue (processSecurityForm e st0 r doc)
         | PhoneValidation \<Rightarrow> continue (processValidateForm e st0 r doc)
         | Captcha \<Rightarrow> continue (processCaptchaForm e st0 r doc)
         | Unknown \<Rightarrow>
             Finished (Inl (AuthorizationError ''Account verification failed''
                              AUTHORIZATION_FAILED None)) st0)
   \<and> (includes_str (url r) (CALLBACK_BLANK e) \<longrightarrow>
        classify e (url r) = Terminal \<and> step e st r = Finished (grant_of_url e (url r)) st
        \<and> trace (config_state (step e st r)) = trace st)"
  by (simp add: step_def classify_def Let_def)

theorem markers_tested_in_fixed_order_witness:
  "step (demo_env (always [])) constructor
     \<lparr>url = ''https://oauth.vk.com/blank.html?act=captcha#access_token=tok123'', body_text = []\<rparr>
   = Finished (Inr \<lparr>user = None, token = Some ''tok123''\<rparr>) constructor
   \<and> classify (demo_env (always []))
        ''https://m.vk.com/login?act=security&to=act=authcheck'' = TwoFactor"
  using markers_tested_in_fixed_order [where e = "demo_env (always [])" and st = constructor
      and r = "\<lparr>url = ''https://oauth.vk.com/blank.html?act=captcha#access_token=tok123'',
                body_text = []\<rparr>"]
  by (simp add: demo_defs marker_defs classify_def grant_of_url_def fragment_params_def
        has_param_def get_param_def substring_def)

end
